theory Spec2Isabelle
  imports Main
begin

section \<open>Data model of map.py\<close>

text \<open>
  A device is the pair \<^verbatim>\<open>(d.psrc, d.hwsrc)\<close> that \<^verbatim>\<open>find_all_devices\<close> builds from an
  answered ARP request: the address first, the hardware address second. A favourite is
  the triple \<^verbatim>\<open>(name, (ip, mac), lastonline)\<close>; \<^verbatim>\<open>test_favourites\<close> reads the third
  component as \<^verbatim>\<open>fav[2] if len(fav) > 2 else 0\<close>, so it may be absent (\<open>None\<close>).
  Timestamps are copied and printed by the code, never computed with.
\<close>

type_synonym device = "string \<times> string"

type_synonym timestamp = int

type_synonym favourite = "string \<times> (string \<times> string) \<times> timestamp option"

text \<open>
  The exceptions the modelled functions can raise. \<^verbatim>\<open>FileNotFoundError\<close> is caught
  wherever the source opens a file for reading, so it never leaves a function.
\<close>

datatype exn = TypeError | IndexError | ValueError | OverflowError | OSError

text \<open>
  The JSON file is a dictionary from keys to values; the file system maps a path to the
  dictionary stored there (\<open>None\<close>: no such file). \<open>sent\<close> is the log of the ARP
  requests issued so far, oldest first.
\<close>

type_synonym 'v document = "string \<rightharpoonup> 'v"

record 'v world =
  files :: "string \<rightharpoonup> 'v document"
  sent :: "string list"

text \<open>
  The network is an oracle: the answers (as devices) to the request for \<open>ip\<close> when \<open>n\<close>
  requests have been sent before. An empty list is \<^verbatim>\<open>No response\<close>. The timeout only
  bounds how long \<^verbatim>\<open>srp\<close> waits, and is part of the oracle.
\<close>

type_synonym network = "nat \<Rightarrow> string \<Rightarrow> device list"

definition DEFAULT_FILE :: string where
  "DEFAULT_FILE = ''homebox_map_data.json''"

definition HOME_BASE :: string where
  "HOME_BASE = ''192.168.178.''"

definition HOME_RANGE :: string where
  "HOME_RANGE = HOME_BASE @ ''0/24''"

definition MAIN_LIST :: string where
  "MAIN_LIST = ''fav_devices''"

section \<open>Printing\<close>

text \<open>
  Every function of the source takes an argument \<^verbatim>\<open>verbose\<close>, an integer whose default
  is the module's \<^verbatim>\<open>__DEFAULT_VERBOSE = 1\<close>; \<^verbatim>\<open>if verbose:\<close> holds when it is not 0. What
  is printed is not modelled, but evaluating the printed text can raise, and then the
  statements after the print are not reached. Two expressions of the printed texts can
  raise: \<^verbatim>\<open>parse_unix(timestamp)\<close>, and the subscripts \<^verbatim>\<open>ip[0]\<close>, \<^verbatim>\<open>ip[1]\<close> of the listing in
  \<^verbatim>\<open>load_favourites\<close>.

  \<^verbatim>\<open>parse_unix\<close> is \<^verbatim>\<open>time.strftime(..., time.localtime(timestamp))\<close>. The library call is
  a parameter of the model: for a timestamp, the text, or the exception raised for a
  timestamp out of the platform's range (\<^verbatim>\<open>OverflowError\<close> or \<^verbatim>\<open>OSError\<close>).
\<close>

type_synonym formatter = "timestamp \<Rightarrow> exn + string"

definition parse_unix :: "formatter \<Rightarrow> timestamp \<Rightarrow> exn + string" where
  "parse_unix fmt timestamp = fmt timestamp"

text \<open>
  The prints of the loop of \<^verbatim>\<open>test_favourites\<close> and of \<^verbatim>\<open>save_favourite\<close>, under
  \<^verbatim>\<open>if verbose:\<close>, format the timestamp \<^verbatim>\<open>lastonline\<close>.
\<close>

definition verbose_print :: "formatter \<Rightarrow> int \<Rightarrow> timestamp \<Rightarrow> exn + unit" where
  "verbose_print fmt verbose lastonline =
     (if verbose \<noteq> 0 then
        (case parse_unix fmt lastonline of Inl e \<Rightarrow> Inl e | Inr text \<Rightarrow> Inr ())
      else Inr ())"

section \<open>Probing\<close>

text \<open>The prints of \<^verbatim>\<open>send_ARP\<close> show the address and cannot raise.\<close>

definition send_ARP :: "network \<Rightarrow> string \<Rightarrow> 'v world \<Rightarrow> device list \<times> 'v world" where
  "send_ARP net ip w = (net (length (sent w)) ip, w\<lparr>sent := sent w @ [ip]\<rparr>)"

text \<open>
  \<^verbatim>\<open>find_all_devices\<close> as \<^verbatim>\<open>test_favourites\<close> calls it, with the Boolean \<^verbatim>\<open>verbose>1\<close> for
  \<^verbatim>\<open>verbose\<close>: its test \<^verbatim>\<open>verbose > 1\<close> is then false, so the sorted listing of the
  devices is not reached, and its other prints cannot raise.
\<close>

definition find_all_devices :: "network \<Rightarrow> string \<Rightarrow> 'v world \<Rightarrow> device list \<times> 'v world" where
  "find_all_devices net iprange w = send_ARP net iprange w"

section \<open>Matching\<close>

fun match_ip_in_devices :: "string \<Rightarrow> device list \<Rightarrow> device option" where
  "match_ip_in_devices ip [] = None"
| "match_ip_in_devices ip (d # devices) =
     (if fst d = ip then Some d else match_ip_in_devices ip devices)"

fun match_mac_in_devices :: "string \<Rightarrow> device list \<Rightarrow> device option" where
  "match_mac_in_devices mac [] = None"
| "match_mac_in_devices mac (d # devices) =
     (if snd d = mac then Some d else match_mac_in_devices mac devices)"

text \<open>
  The first loop of \<^verbatim>\<open>match_in_devices\<close>: it returns 4 from inside the loop at the first
  device that has both the address and the hardware address, and falls through when the
  list is exhausted.
\<close>

fun full_match :: "string \<Rightarrow> string \<Rightarrow> device list \<Rightarrow> bool" where
  "full_match ip mac [] = False"
| "full_match ip mac (d # devices) =
     (if fst d = ip \<and> snd d = mac then True else full_match ip mac devices)"

text \<open>
  The docstring: 0 if not found, 1 if IP changed, 2 if MAC changed, 3 if conflict,
  4 if fully matching. The prints show strings that are there and cannot raise.
\<close>

definition match_in_devices :: "string \<Rightarrow> string \<Rightarrow> device list \<Rightarrow> int" where
  "match_in_devices ip mac devices =
     (if full_match ip mac devices then 4
      else
        (let mid = match_ip_in_devices ip devices;
             mmd = match_mac_in_devices mac devices
         in if mid \<noteq> None \<and> mmd \<noteq> None then 3
            else if mid \<noteq> None then 2
            else if mmd \<noteq> None then 1
            else 0))"

section \<open>The store\<close>

definition save :: "string \<Rightarrow> 'v \<Rightarrow> string \<Rightarrow> 'v world \<Rightarrow> 'v world" where
  "save key v file w =
     (let data = (case files w file of None \<Rightarrow> Map.empty | Some d \<Rightarrow> d)
      in w\<lparr>files := (files w)(file \<mapsto> data(key \<mapsto> v))\<rparr>)"

text \<open>\<^verbatim>\<open>load(None, file)\<close>, the whole dictionary, and \<^verbatim>\<open>load(key, file)\<close>.\<close>

definition load_all :: "string \<Rightarrow> 'v world \<Rightarrow> 'v document" where
  "load_all file w = (case files w file of None \<Rightarrow> Map.empty | Some data \<Rightarrow> data)"

definition load :: "string \<Rightarrow> string \<Rightarrow> 'v world \<Rightarrow> 'v option" where
  "load key file w = (case files w file of None \<Rightarrow> None | Some data \<Rightarrow> data key)"

text \<open>
  The favourites operations read and write lists of favourites, so their documents hold
  such lists.

  The listing of \<^verbatim>\<open>load_favourites\<close> under \<^verbatim>\<open>if verbose:\<close>, the loop
  \<^verbatim>\<open>for name, (ip, mac), lastonline in favourites: print(...)\<close>. Unpacking a record without
  timestamp raises \<^verbatim>\<open>ValueError\<close>; the text printed holds \<^verbatim>\<open>parse_unix(lastonline)\<close>, then
  \<^verbatim>\<open>ip[0]\<close> and \<^verbatim>\<open>ip[1]\<close>, the first two characters of the address, an \<^verbatim>\<open>IndexError\<close> when
  the address is shorter.
\<close>

fun print_favourites :: "formatter \<Rightarrow> favourite list \<Rightarrow> exn + unit" where
  "print_favourites fmt [] = Inr ()"
| "print_favourites fmt (f # favourites) =
     (case snd (snd f) of
        None \<Rightarrow> Inl ValueError
      | Some lastonline \<Rightarrow>
          (case parse_unix fmt lastonline of
             Inl e \<Rightarrow> Inl e
           | Inr text \<Rightarrow>
               if length (fst (fst (snd f))) < 2 then Inl IndexError
               else print_favourites fmt favourites))"

definition load_favourites ::
  "formatter \<Rightarrow> string \<Rightarrow> string \<Rightarrow> int \<Rightarrow> favourite list world \<Rightarrow> exn + favourite list" where
  "load_favourites fmt key file verbose w =
     (case load key file w of
        None \<Rightarrow> Inr []
      | Some favourites \<Rightarrow>
          if verbose \<noteq> 0 then
            (case print_favourites fmt favourites of
               Inl e \<Rightarrow> Inl e
             | Inr u \<Rightarrow> Inr favourites)
          else Inr favourites)"

section \<open>The reconciliation pass\<close>

text \<open>
  One iteration of the loop of \<^verbatim>\<open>test_favourites\<close> over the lists \<open>online\<close> and
  \<open>new_favourites\<close>. The test \<^verbatim>\<open>mid == 0\<close> is an \<^verbatim>\<open>if\<close> of its own, followed by the
  chain \<^verbatim>\<open>if mid == 1 ... elif mid == 2 ... elif mid == 3 ... elif mid == 4\<close>.
  Subscripting the \<^verbatim>\<open>None\<close> that a lookup returns raises \<^verbatim>\<open>TypeError\<close>. In every branch
  the lookups come first, then the print under \<^verbatim>\<open>if verbose:\<close>, which formats
  \<^verbatim>\<open>lastonline\<close>, then the appends. The print after an answered second request shows no
  timestamp.
\<close>

definition for_body ::
  "network \<Rightarrow> formatter \<Rightarrow> device list \<Rightarrow> timestamp \<Rightarrow> int \<Rightarrow> favourite \<Rightarrow>
   favourite list \<times> favourite list \<Rightarrow> 'v world \<Rightarrow>
   (exn + favourite list \<times> favourite list) \<times> 'v world" where
  "for_body net fmt devices now verbose fav acc w =
     (let online = fst acc;
          new_favourites = snd acc;
          name = fst fav;
          ip = fst (fst (snd fav));
          mac = snd (fst (snd fav));
          lastonline = (case snd (snd fav) of Some t \<Rightarrow> t | None \<Rightarrow> 0);
          mid = match_in_devices ip mac devices;
          (tried, w) =
            (if mid = 0 then
               (let (result, w') = send_ARP net ip w
                in if result \<noteq> [] then (Inr (4, new_favourites), w')
                   else
                     (case verbose_print fmt verbose lastonline of
                        Inl e \<Rightarrow> (Inl e, w')
                      | Inr u \<Rightarrow> (Inr (mid, new_favourites @ [fav]), w')))
             else (Inr (mid, new_favourites), w))
      in case tried of
           Inl e \<Rightarrow> (Inl e, w)
         | Inr (mid, new_favourites) \<Rightarrow>
             if mid = 1 then
               (case match_ip_in_devices ip devices of
                  None \<Rightarrow> (Inl TypeError, w)
                | Some d \<Rightarrow>
                    (case verbose_print fmt verbose lastonline of
                       Inl e \<Rightarrow> (Inl e, w)
                     | Inr u \<Rightarrow> (Inr (online, new_favourites @ [fav]), w)))
             else if mid = 2 then
               (case match_mac_in_devices mac devices of
                  None \<Rightarrow> (Inl TypeError, w)
                | Some d \<Rightarrow>
                    (let newip = fst d
                     in case verbose_print fmt verbose lastonline of
                          Inl e \<Rightarrow> (Inl e, w)
                        | Inr u \<Rightarrow>
                            (Inr (online @ [(name, (newip, mac), Some lastonline)],
                                  new_favourites @ [(name, (newip, mac), Some now)]), w)))
             else if mid = 3 then
               (case match_mac_in_devices mac devices of
                  None \<Rightarrow> (Inl TypeError, w)
                | Some d \<Rightarrow>
                    (let newip = fst d
                     in case match_ip_in_devices ip devices of
                          None \<Rightarrow> (Inl TypeError, w)
                        | Some e \<Rightarrow>
                            (let newmac = snd e
                             in case verbose_print fmt verbose lastonline of
                                  Inl x \<Rightarrow> (Inl x, w)
                                | Inr u \<Rightarrow>
                                    (Inr (online @ [(name, (newip, mac), Some lastonline)],
                                          new_favourites @
                                            [(name, (newip, mac), Some now),
                                             (name @ ''_CONFLICT_OLDIP_NEWMAC'', (ip, newmac),
                                              Some now)]),
                                     w))))
             else if mid = 4 then
               (case verbose_print fmt verbose lastonline of
                  Inl e \<Rightarrow> (Inl e, w)
                | Inr u \<Rightarrow>
                    (Inr (online @ [fav], new_favourites @ [(name, (ip, mac), Some now)]), w))
             else (Inr (online, new_favourites), w))"

text \<open>The loop: an exception in one iteration ends the pass there.\<close>

fun for_favourites ::
  "network \<Rightarrow> formatter \<Rightarrow> device list \<Rightarrow> timestamp \<Rightarrow> int \<Rightarrow> favourite list \<Rightarrow>
   favourite list \<times> favourite list \<Rightarrow> 'v world \<Rightarrow>
   (exn + favourite list \<times> favourite list) \<times> 'v world" where
  "for_favourites net fmt devices now verbose [] acc w = (Inr acc, w)"
| "for_favourites net fmt devices now verbose (fav # favourites) acc w =
     (case for_body net fmt devices now verbose fav acc w of
        (Inl e, w') \<Rightarrow> (Inl e, w')
      | (Inr acc', w') \<Rightarrow> for_favourites net fmt devices now verbose favourites acc' w')"

text \<open>
  \<^verbatim>\<open>test_favourites(favourites=None, devices=None, now=None, verbose=1)\<close>: an argument
  left out is read from the clock, from the store (\<^verbatim>\<open>load_favourites\<close> with the Boolean
  \<^verbatim>\<open>verbose>1\<close> for \<^verbatim>\<open>verbose\<close>) or from a scan of the home range, in this order. The
  updated list is saved after the loop, and \<open>online\<close> is returned.
\<close>

definition test_favourites ::
  "network \<Rightarrow> timestamp \<Rightarrow> formatter \<Rightarrow> favourite list option \<Rightarrow> device list option \<Rightarrow>
   timestamp option \<Rightarrow> int \<Rightarrow> favourite list world \<Rightarrow>
   (exn + favourite list) \<times> favourite list world" where
  "test_favourites net clock fmt favourites devices now verbose w =
     (let now = (case now of None \<Rightarrow> clock | Some t \<Rightarrow> t)
      in case (case favourites of
                 None \<Rightarrow> load_favourites fmt MAIN_LIST DEFAULT_FILE (if 1 < verbose then 1 else 0) w
               | Some fs \<Rightarrow> Inr fs) of
           Inl e \<Rightarrow> (Inl e, w)
         | Inr favourites \<Rightarrow>
             (let (devices, w) = (case devices of
                                    None \<Rightarrow> find_all_devices net HOME_RANGE w
                                  | Some ds \<Rightarrow> (ds, w))
              in case for_favourites net fmt devices now verbose favourites ([], []) w of
                   (Inl e, w') \<Rightarrow> (Inl e, w')
                 | (Inr acc, w') \<Rightarrow>
                     (Inr (fst acc), save MAIN_LIST (snd acc) DEFAULT_FILE w')))"

section \<open>Managing favourites\<close>

text \<open>
  \<^verbatim>\<open>save_favourite\<close> loads the list first. With no \<^verbatim>\<open>mac\<close> given, it is read from the
  first answer to a request (\<^verbatim>\<open>send_ARP(ip)[0][1].hwsrc\<close>, an \<^verbatim>\<open>IndexError\<close> when there
  is no answer) or from the device at that address
  (\<^verbatim>\<open>match_ip_in_devices(ip, devices)[1]\<close>, a \<^verbatim>\<open>TypeError\<close> when there is none). The source
  then tests \<^verbatim>\<open>mac is None\<close> to return \<^verbatim>\<open>False\<close>; a hardware address read this way is a
  string, so that test never holds. The print before the new record is appended formats
  its timestamp.
\<close>

definition save_favourite ::
  "network \<Rightarrow> timestamp \<Rightarrow> formatter \<Rightarrow> string \<Rightarrow> string \<Rightarrow> string option \<Rightarrow>
   timestamp option \<Rightarrow> string \<Rightarrow> string \<Rightarrow> device list option \<Rightarrow> int \<Rightarrow>
   favourite list world \<Rightarrow> (exn + bool) \<times> favourite list world" where
  "save_favourite net clock fmt name ip mac lastonline key file devices verbose w =
     (let lastonline = (case lastonline of None \<Rightarrow> clock | Some t \<Rightarrow> t)
      in case load_favourites fmt key file verbose w of
           Inl e \<Rightarrow> (Inl e, w)
         | Inr favourites \<Rightarrow>
             (let (found, w) =
                    (case mac of
                       None \<Rightarrow>
                         (case devices of
                            None \<Rightarrow>
                              (let (result, w') = send_ARP net ip w
                               in case result of
                                    [] \<Rightarrow> (Inl IndexError, w')
                                  | d # _ \<Rightarrow> (Inr (snd d), w'))
                          | Some ds \<Rightarrow>
                              (case match_ip_in_devices ip ds of
                                 None \<Rightarrow> (Inl TypeError, w)
                               | Some d \<Rightarrow> (Inr (snd d), w)))
                     | Some m \<Rightarrow> (Inr m, w))
              in case found of
                   Inl e \<Rightarrow> (Inl e, w)
                 | Inr mac \<Rightarrow>
                     (case verbose_print fmt verbose lastonline of
                        Inl e \<Rightarrow> (Inl e, w)
                      | Inr u \<Rightarrow>
                          (Inr True,
                           save key
                             (filter (\<lambda>f. fst f \<noteq> name) favourites @
                                [(name, (ip, mac), Some lastonline)])
                             file w))))"

text \<open>
  \<^verbatim>\<open>delete_favourite\<close> loads the list with its own \<^verbatim>\<open>verbose\<close>; its other prints show the
  name and a count and cannot raise.
\<close>

definition delete_favourite ::
  "formatter \<Rightarrow> string \<Rightarrow> string \<Rightarrow> string \<Rightarrow> int \<Rightarrow> favourite list world \<Rightarrow>
   (exn + bool) \<times> favourite list world" where
  "delete_favourite fmt name key file verbose w =
     (case load_favourites fmt key file verbose w of
        Inl e \<Rightarrow> (Inl e, w)
      | Inr favourites \<Rightarrow>
          if favourites = [] then (Inr False, w)
          else (Inr True, save key (filter (\<lambda>f. fst f \<noteq> name) favourites) file w))"

section \<open>Example data and auxiliary notions\<close>

text \<open>
  A network on which no host answers, one on which every host answers, a platform that
  formats every timestamp (the text is not used), an empty file system, and a stored
  document with two favourites and a second key. \<open>count_named\<close> is the count
  \<^verbatim>\<open>len([f for f in favourites if f[0] == name])\<close> that \<^verbatim>\<open>delete_favourite\<close> prints.
  \<open>refreshed\<close> is the record \<^verbatim>\<open>(name, (ip, mac), now)\<close> that the pass writes for a favourite
  it reports at its own address, and \<open>found\<close> says that a favourite is an exact match or
  answers the request sent to its address.
\<close>

definition quiet_net :: network where
  "quiet_net n ip = []"

definition answering_net :: network where
  "answering_net n ip = [(ip, ''aa:bb:cc:dd:ee:02'')]"

definition any_time :: formatter where
  "any_time t = Inr ''1970-01-01 00:00:00''"

definition count_named :: "string \<Rightarrow> favourite list \<Rightarrow> nat" where
  "count_named name favourites = length (filter (\<lambda>f. fst f = name) favourites)"

definition refreshed :: "timestamp \<Rightarrow> favourite \<Rightarrow> favourite" where
  "refreshed now fav = (fst fav, fst (snd fav), Some now)"

definition found :: "network \<Rightarrow> device list \<Rightarrow> favourite \<Rightarrow> bool" where
  "found net devices fav =
     (match_in_devices (fst (fst (snd fav))) (snd (fst (snd fav))) devices = 4
      \<or> net 0 (fst (fst (snd fav))) \<noteq> [])"

definition two_names_world :: "favourite list world" where
  "two_names_world =
     \<lparr>files = [DEFAULT_FILE \<mapsto>
                 [MAIN_LIST \<mapsto>
                    [(''tv'', (''192.168.178.30'', ''aa:bb:cc:dd:ee:03''), Some 700),
                     (''nas'', (''192.168.178.40'', ''aa:bb:cc:dd:ee:04''), Some 800)],
                  ''settings'' \<mapsto> []]],
      sent = []\<rparr>"

definition world0 :: "favourite list world" where
  "world0 = \<lparr>files = Map.empty, sent = []\<rparr>"

section \<open>The matcher\<close>

lemma full_match_iff: "full_match ip mac devices = ((ip, mac) \<in> set devices)"
  by (induction devices) auto

lemma match_ip_None_iff: "(match_ip_in_devices ip devices = None) = (ip \<notin> fst ` set devices)"
  by (induction devices) auto

lemma match_mac_None_iff: "(match_mac_in_devices mac devices = None) = (mac \<notin> snd ` set devices)"
  by (induction devices) auto

lemma find_first_split:
  "(find P xs = Some d) = (\<exists>pre post. xs = pre @ d # post \<and> P d \<and> (\<forall>x\<in>set pre. \<not> P x))"
proof (induction xs)
  case Nil
  then show ?case by simp
next
  case (Cons e xs)
  show ?case
  proof (cases "P e")
    case True
    have "(e = d) = (\<exists>pre post. e # xs = pre @ d # post \<and> P d \<and> (\<forall>x\<in>set pre. \<not> P x))"
    proof
      assume "e = d"
      then have "e # xs = [] @ d # xs \<and> P d \<and> (\<forall>x\<in>set []. \<not> P x)"
        using True by simp
      then show "\<exists>pre post. e # xs = pre @ d # post \<and> P d \<and> (\<forall>x\<in>set pre. \<not> P x)"
        by blast
    next
      assume "\<exists>pre post. e # xs = pre @ d # post \<and> P d \<and> (\<forall>x\<in>set pre. \<not> P x)"
      then obtain pre post where
        h: "e # xs = pre @ d # post" "\<forall>x\<in>set pre. \<not> P x" by blast
      show "e = d"
      proof (cases pre)
        case Nil
        with h show ?thesis by simp
      next
        case (Cons p ps)
        with h True show ?thesis by auto
      qed
    qed
    with True show ?thesis by simp
  next
    case False
    have "(\<exists>pre post. xs = pre @ d # post \<and> P d \<and> (\<forall>x\<in>set pre. \<not> P x)) =
          (\<exists>pre post. e # xs = pre @ d # post \<and> P d \<and> (\<forall>x\<in>set pre. \<not> P x))"
    proof
      assume "\<exists>pre post. xs = pre @ d # post \<and> P d \<and> (\<forall>x\<in>set pre. \<not> P x)"
      then obtain pre post where
        "xs = pre @ d # post" "P d" "\<forall>x\<in>set pre. \<not> P x" by blast
      then have "e # xs = (e # pre) @ d # post \<and> P d \<and> (\<forall>x\<in>set (e # pre). \<not> P x)"
        using False by auto
      then show "\<exists>pre post. e # xs = pre @ d # post \<and> P d \<and> (\<forall>x\<in>set pre. \<not> P x)"
        by blast
    next
      assume "\<exists>pre post. e # xs = pre @ d # post \<and> P d \<and> (\<forall>x\<in>set pre. \<not> P x)"
      then obtain pre post where
        h: "e # xs = pre @ d # post" "P d" "\<forall>x\<in>set pre. \<not> P x" by blast
      show "\<exists>pre post. xs = pre @ d # post \<and> P d \<and> (\<forall>x\<in>set pre. \<not> P x)"
      proof (cases pre)
        case Nil
        with h False show ?thesis by simp
      next
        case (Cons p ps)
        with h have "xs = ps @ d # post \<and> P d \<and> (\<forall>x\<in>set ps. \<not> P x)" by auto
        then show ?thesis by blast
      qed
    qed
    with False Cons.IH show ?thesis by simp
  qed
qed

lemma match_ip_find: "match_ip_in_devices ip devices = find (\<lambda>d. fst d = ip) devices"
  by (induction devices) auto

lemma match_mac_find: "match_mac_in_devices mac devices = find (\<lambda>d. snd d = mac) devices"
  by (induction devices) auto

lemma match_ip_first:
  "(match_ip_in_devices ip devices = Some d) =
     (\<exists>pre post. devices = pre @ d # post \<and> fst d = ip \<and> ip \<notin> fst ` set pre)"
proof -
  have h: "\<And>pre. (ip \<notin> fst ` set pre) = (\<forall>x\<in>set pre. \<not> fst x = ip)" by force
  show ?thesis by (simp add: match_ip_find find_first_split h)
qed

lemma match_mac_first:
  "(match_mac_in_devices mac devices = Some d) =
     (\<exists>pre post. devices = pre @ d # post \<and> snd d = mac \<and> mac \<notin> snd ` set pre)"
proof -
  have h: "\<And>pre. (mac \<notin> snd ` set pre) = (\<forall>x\<in>set pre. \<not> snd x = mac)" by force
  show ?thesis by (simp add: match_mac_find find_first_split h)
qed

lemma match_in_devices_codes:
  "match_in_devices ip mac devices =
      (if (ip, mac) \<in> set devices then 4
       else if ip \<in> fst ` set devices \<and> mac \<in> snd ` set devices then 3
       else if ip \<in> fst ` set devices then 2
       else if mac \<in> snd ` set devices then 1 else 0)"
proof -
  have a: "(ip, mac) \<in> set devices \<Longrightarrow> ip \<in> fst ` set devices \<and> mac \<in> snd ` set devices"
    by force
  show ?thesis
    using a by (simp add: match_in_devices_def full_match_iff match_ip_None_iff match_mac_None_iff Let_def
        del: not_None_eq)
qed

text \<open>
  C4: \<^verbatim>\<open>match_in_devices\<close> returns, for every address, hardware address and list of
  devices (empty or with duplicates), exactly one of the five codes 4 (exact), 3 (conflict),
  2 (MAC changed), 1 (IP changed) and 0 (not found). The code is 4 exactly when some
  device of the whole list has both the address and the hardware address, wherever it
  stands; the other codes are decided by whether the address and the hardware address
  occur at all. The lookups used for a partial match return the first device in list
  order that has the address (the hardware address): no device before it has it.
\<close>

theorem match_in_devices_classifies:
  "match_in_devices ip mac devices \<in> {0, 1, 2, 3, 4}
   \<and> (match_in_devices ip mac devices = 4) = ((ip, mac) \<in> set devices)
   \<and> (match_in_devices ip mac devices = 3) =
       ((ip, mac) \<notin> set devices \<and> ip \<in> fst ` set devices \<and> mac \<in> snd ` set devices)
   \<and> (match_in_devices ip mac devices = 2) =
       ((ip, mac) \<notin> set devices \<and> ip \<in> fst ` set devices \<and> mac \<notin> snd ` set devices)
   \<and> (match_in_devices ip mac devices = 1) =
       ((ip, mac) \<notin> set devices \<and> ip \<notin> fst ` set devices \<and> mac \<in> snd ` set devices)
   \<and> (match_in_devices ip mac devices = 0) =
       (ip \<notin> fst ` set devices \<and> mac \<notin> snd ` set devices)
   \<and> (match_ip_in_devices ip devices = Some d) =
       (\<exists>pre post. devices = pre @ d # post \<and> fst d = ip \<and> ip \<notin> fst ` set pre)
   \<and> (match_mac_in_devices mac devices = Some d) =
       (\<exists>pre post. devices = pre @ d # post \<and> snd d = mac \<and> mac \<notin> snd ` set pre)"
proof -
  have a: "(ip, mac) \<in> set devices \<Longrightarrow> ip \<in> fst ` set devices \<and> mac \<in> snd ` set devices"
    by force
  show ?thesis
    unfolding match_in_devices_codes using a by (simp add: match_ip_first match_mac_first)
qed

section \<open>The loop body, code by code\<close>

lemma code3_lookups:
  assumes "match_in_devices ip mac devices = 3"
  shows "\<exists>newip newmac. match_mac_in_devices mac devices = Some (newip, mac) \<and>
           match_ip_in_devices ip devices = Some (ip, newmac) \<and> newip \<noteq> ip \<and> newmac \<noteq> mac"
proof -
  from assms have nf: "(ip, mac) \<notin> set devices"
    and i: "match_ip_in_devices ip devices \<noteq> None"
    and m: "match_mac_in_devices mac devices \<noteq> None"
    by (auto simp: match_in_devices_def full_match_iff Let_def split: if_splits)
  from i obtain e where e: "match_ip_in_devices ip devices = Some e" by auto
  from m obtain d where d: "match_mac_in_devices mac devices = Some d" by auto
  from e have e1: "fst e = ip" "e \<in> set devices" by (auto simp: match_ip_first)
  from d have d1: "snd d = mac" "d \<in> set devices" by (auto simp: match_mac_first)
  from e1 nf have "snd e \<noteq> mac" by (cases e) auto
  moreover from d1 nf have "fst d \<noteq> ip" by (cases d) auto
  ultimately show ?thesis using e d e1 d1 by (cases e; cases d) auto
qed

lemma code1_lookup:
  assumes "match_in_devices ip mac devices = 1"
  shows "match_ip_in_devices ip devices = None"
  using assms by (simp add: match_in_devices_codes match_ip_None_iff split: if_splits)

lemma code2_lookup:
  assumes "match_in_devices ip mac devices = 2"
  shows "match_mac_in_devices mac devices = None"
  using assms by (simp add: match_in_devices_codes match_mac_None_iff split: if_splits)

lemma for_body_code1:
  assumes "match_in_devices ip mac devices = 1"
  shows "for_body net fmt devices now verbose (name, (ip, mac), lo) acc w = (Inl TypeError, w)"
  using assms code1_lookup[OF assms] by (simp add: for_body_def)

lemma for_body_code2:
  assumes "match_in_devices ip mac devices = 2"
  shows "for_body net fmt devices now verbose (name, (ip, mac), lo) acc w = (Inl TypeError, w)"
  using assms code2_lookup[OF assms] by (simp add: for_body_def)

lemma for_body_code3:
  assumes "match_in_devices ip mac devices = 3"
    and "match_mac_in_devices mac devices = Some d"
    and "match_ip_in_devices ip devices = Some e"
  shows "for_body net fmt devices now verbose (name, (ip, mac), lo) acc w =
        (case verbose_print fmt verbose (case lo of Some t \<Rightarrow> t | None \<Rightarrow> 0) of
           Inl x \<Rightarrow> Inl x
         | Inr u \<Rightarrow>
             Inr (fst acc @ [(name, (fst d, mac), Some (case lo of Some t \<Rightarrow> t | None \<Rightarrow> 0))],
                  snd acc @
                    [(name, (fst d, mac), Some now),
                     (name @ ''_CONFLICT_OLDIP_NEWMAC'', (ip, snd e), Some now)]), w)"
  using assms by (simp add: for_body_def Let_def split: sum.splits)

lemma for_body_code4:
  assumes "match_in_devices ip mac devices = 4"
  shows "for_body net fmt devices now verbose (name, (ip, mac), lo) acc w =
        (case verbose_print fmt verbose (case lo of Some t \<Rightarrow> t | None \<Rightarrow> 0) of
           Inl x \<Rightarrow> Inl x
         | Inr u \<Rightarrow>
             Inr (fst acc @ [(name, (ip, mac), lo)], snd acc @ [(name, (ip, mac), Some now)]), w)"
  using assms by (simp add: for_body_def split: sum.splits)

lemma for_body_code0:
  assumes "match_in_devices ip mac devices = 0"
  shows "for_body net fmt devices now verbose (name, (ip, mac), lo) acc w =
        (case verbose_print fmt verbose (case lo of Some t \<Rightarrow> t | None \<Rightarrow> 0) of
           Inl x \<Rightarrow> Inl x
         | Inr u \<Rightarrow>
             if net (length (sent w)) ip \<noteq> []
             then Inr (fst acc @ [(name, (ip, mac), lo)], snd acc @ [(name, (ip, mac), Some now)])
             else Inr (fst acc, snd acc @ [(name, (ip, mac), lo)]),
         w\<lparr>sent := sent w @ [ip]\<rparr>)"
  using assms by (simp add: for_body_def send_ARP_def split: sum.splits)

lemma test_favourites_given:
  "test_favourites net clock fmt (Some favourites) (Some devices) (Some now) verbose w =
     (case for_favourites net fmt devices now verbose favourites ([], []) w of
        (Inl e, w') \<Rightarrow> (Inl e, w')
      | (Inr acc, w') \<Rightarrow> (Inr (fst acc), save MAIN_LIST (snd acc) DEFAULT_FILE w'))"
  by (simp add: test_favourites_def)

section \<open>Codes 1 and 2 in the pass\<close>

text \<open>
  \<^verbatim>\<open>match_in_devices\<close> returns 1 when only the hardware address is found and 2 when only
  the address is found, as its docstring says. The loop of \<^verbatim>\<open>test_favourites\<close> looks the
  address up under code 1 and the hardware address under code 2, so in both cases the
  lookup returns \<^verbatim>\<open>None\<close> and subscripting it raises.
\<close>

text \<open>
  C2: the printer whose hardware address is seen at another address gets code 1 (IP
  changed), and the pass over it raises \<^verbatim>\<open>TypeError\<close> at every verbosity: nothing is
  returned as online and nothing is saved.
\<close>

theorem ip_moved_pass_raises:
  "match_in_devices ''192.168.178.50'' ''aa:bb:cc:dd:ee:01''
     [(''192.168.178.99'', ''aa:bb:cc:dd:ee:01'')] = 1
   \<and> test_favourites net clock fmt
        (Some [(''printer'', (''192.168.178.50'', ''aa:bb:cc:dd:ee:01''), Some 1000)])
        (Some [(''192.168.178.99'', ''aa:bb:cc:dd:ee:01'')]) (Some now) verbose w =
      (Inl TypeError, w)"
proof -
  let ?devices = "[(''192.168.178.99'', ''aa:bb:cc:dd:ee:01'')]"
  have h: "match_in_devices ''192.168.178.50'' ''aa:bb:cc:dd:ee:01'' ?devices = 1"
    by (simp add: match_in_devices_def)
  show ?thesis
    using h by (simp add: test_favourites_given for_body_code1[OF h])
qed

text \<open>
  C3: a printer whose address is held by a device with another hardware address gets
  code 2 (MAC changed), and the pass over it raises \<^verbatim>\<open>TypeError\<close> at every verbosity:
  the favourite is not carried into a saved list, since nothing is saved.
\<close>

theorem mac_moved_pass_raises:
  "match_in_devices ''192.168.178.50'' ''aa:bb:cc:dd:ee:01''
     [(''192.168.178.50'', ''aa:bb:cc:dd:ee:02'')] = 2
   \<and> test_favourites net clock fmt
        (Some [(''printer'', (''192.168.178.50'', ''aa:bb:cc:dd:ee:01''), Some 1000)])
        (Some [(''192.168.178.50'', ''aa:bb:cc:dd:ee:02'')]) (Some now) verbose w =
      (Inl TypeError, w)"
proof -
  let ?devices = "[(''192.168.178.50'', ''aa:bb:cc:dd:ee:02'')]"
  have h: "match_in_devices ''192.168.178.50'' ''aa:bb:cc:dd:ee:01'' ?devices = 2"
    by (simp add: match_in_devices_def)
  show ?thesis
    using h by (simp add: test_favourites_given for_body_code2[OF h])
qed

text \<open>
  C1: a pass over two favourites, the first an exact match and the second with code 1,
  raises and leaves the file system as it was: the pass does not run to completion and
  writes nothing. The exception is the \<^verbatim>\<open>TypeError\<close> of the second favourite, unless
  printing the first favourite's timestamp has raised before; with \<^verbatim>\<open>verbose=0\<close> it is
  the \<^verbatim>\<open>TypeError\<close>.
\<close>

theorem pass_aborts_partway:
  "test_favourites net clock fmt
     (Some [(''nas'', (''192.168.178.40'', ''aa:bb:cc:dd:ee:04''), Some 800),
            (''printer'', (''192.168.178.50'', ''aa:bb:cc:dd:ee:01''), Some 1000)])
     (Some [(''192.168.178.40'', ''aa:bb:cc:dd:ee:04''), (''192.168.178.99'', ''aa:bb:cc:dd:ee:01'')])
     (Some now) verbose w =
   (case verbose_print fmt verbose 800 of Inl e \<Rightarrow> Inl e | Inr u \<Rightarrow> Inl TypeError, w)
   \<and> test_favourites net clock fmt
     (Some [(''nas'', (''192.168.178.40'', ''aa:bb:cc:dd:ee:04''), Some 800),
            (''printer'', (''192.168.178.50'', ''aa:bb:cc:dd:ee:01''), Some 1000)])
     (Some [(''192.168.178.40'', ''aa:bb:cc:dd:ee:04''), (''192.168.178.99'', ''aa:bb:cc:dd:ee:01'')])
     (Some now) 0 w =
   (Inl TypeError, w)"
proof -
  let ?devices = "[(''192.168.178.40'', ''aa:bb:cc:dd:ee:04''), (''192.168.178.99'', ''aa:bb:cc:dd:ee:01'')]"
  have h4: "match_in_devices ''192.168.178.40'' ''aa:bb:cc:dd:ee:04'' ?devices = 4"
    by (simp add: match_in_devices_def)
  have h1: "match_in_devices ''192.168.178.50'' ''aa:bb:cc:dd:ee:01'' ?devices = 1"
    by (simp add: match_in_devices_def)
  show ?thesis
    by (simp add: test_favourites_given for_body_code4[OF h4] for_body_code1[OF h1]
        verbose_print_def split: sum.splits)
qed

text \<open>
  C5: a pass over the phone, whose code is 3 (conflict), followed by a printer with code
  1 raises and saves nothing: the phone is neither reported online nor written to the
  saved list, under its name or under \<^verbatim>\<open>phone_CONFLICT_OLDIP_NEWMAC\<close>. With
  \<^verbatim>\<open>verbose=0\<close> the exception is the \<^verbatim>\<open>TypeError\<close> of the printer.
\<close>

theorem conflict_pass_raises:
  "match_in_devices ''192.168.178.20'' ''11:22:33:44:55:66''
     [(''192.168.178.20'', ''ff:ee:dd:cc:bb:aa''), (''192.168.178.77'', ''11:22:33:44:55:66''),
      (''192.168.178.99'', ''aa:bb:cc:dd:ee:01'')] = 3
   \<and> test_favourites net clock fmt
     (Some [(''phone'', (''192.168.178.20'', ''11:22:33:44:55:66''), Some 500),
            (''printer'', (''192.168.178.50'', ''aa:bb:cc:dd:ee:01''), Some 1000)])
     (Some [(''192.168.178.20'', ''ff:ee:dd:cc:bb:aa''), (''192.168.178.77'', ''11:22:33:44:55:66''),
            (''192.168.178.99'', ''aa:bb:cc:dd:ee:01'')])
     (Some now) verbose w =
   (case verbose_print fmt verbose 500 of Inl e \<Rightarrow> Inl e | Inr u \<Rightarrow> Inl TypeError, w)
   \<and> test_favourites net clock fmt
     (Some [(''phone'', (''192.168.178.20'', ''11:22:33:44:55:66''), Some 500),
            (''printer'', (''192.168.178.50'', ''aa:bb:cc:dd:ee:01''), Some 1000)])
     (Some [(''192.168.178.20'', ''ff:ee:dd:cc:bb:aa''), (''192.168.178.77'', ''11:22:33:44:55:66''),
            (''192.168.178.99'', ''aa:bb:cc:dd:ee:01'')])
     (Some now) 0 w =
   (Inl TypeError, w)"
proof -
  let ?devices = "[(''192.168.178.20'', ''ff:ee:dd:cc:bb:aa''), (''192.168.178.77'', ''11:22:33:44:55:66''),
                   (''192.168.178.99'', ''aa:bb:cc:dd:ee:01'')]"
  have h3: "match_in_devices ''192.168.178.20'' ''11:22:33:44:55:66'' ?devices = 3"
    by (simp add: match_in_devices_def)
  have m: "match_mac_in_devices ''11:22:33:44:55:66'' ?devices = Some (''192.168.178.77'', ''11:22:33:44:55:66'')"
    by simp
  have i: "match_ip_in_devices ''192.168.178.20'' ?devices = Some (''192.168.178.20'', ''ff:ee:dd:cc:bb:aa'')"
    by simp
  have h1: "match_in_devices ''192.168.178.50'' ''aa:bb:cc:dd:ee:01'' ?devices = 1"
    by (simp add: match_in_devices_def)
  show ?thesis
    using h3 by (simp add: test_favourites_given for_body_code3[OF h3 m i] for_body_code1[OF h1]
        verbose_print_def split: sum.splits)
qed

text \<open>
  C6: a pass over a favourite with code 0 (not found) followed by a printer with code 1
  sends the request to the first favourite's address and then raises, whatever the
  answer: the favourite is neither reported nor carried into a saved list. With the printer
  first, the pass raises before any request is sent.
\<close>

theorem none_pass_raises:
  "match_in_devices ''192.168.178.30'' ''aa:bb:cc:dd:ee:03''
     [(''192.168.178.99'', ''aa:bb:cc:dd:ee:01'')] = 0
   \<and> test_favourites net clock fmt
     (Some [(''tv'', (''192.168.178.30'', ''aa:bb:cc:dd:ee:03''), Some 700),
            (''printer'', (''192.168.178.50'', ''aa:bb:cc:dd:ee:01''), Some 1000)])
     (Some [(''192.168.178.99'', ''aa:bb:cc:dd:ee:01'')]) (Some now) verbose w =
   (case verbose_print fmt verbose 700 of Inl e \<Rightarrow> Inl e | Inr u \<Rightarrow> Inl TypeError,
    w\<lparr>sent := sent w @ [''192.168.178.30'']\<rparr>)
   \<and> test_favourites net clock fmt
     (Some [(''tv'', (''192.168.178.30'', ''aa:bb:cc:dd:ee:03''), Some 700),
            (''printer'', (''192.168.178.50'', ''aa:bb:cc:dd:ee:01''), Some 1000)])
     (Some [(''192.168.178.99'', ''aa:bb:cc:dd:ee:01'')]) (Some now) 0 w =
   (Inl TypeError, w\<lparr>sent := sent w @ [''192.168.178.30'']\<rparr>)
   \<and> test_favourites net clock fmt
     (Some [(''printer'', (''192.168.178.50'', ''aa:bb:cc:dd:ee:01''), Some 1000),
            (''tv'', (''192.168.178.30'', ''aa:bb:cc:dd:ee:03''), Some 700)])
     (Some [(''192.168.178.99'', ''aa:bb:cc:dd:ee:01'')]) (Some now) verbose w =
   (Inl TypeError, w)"
proof -
  let ?devices = "[(''192.168.178.99'', ''aa:bb:cc:dd:ee:01'')]"
  have h0: "match_in_devices ''192.168.178.30'' ''aa:bb:cc:dd:ee:03'' ?devices = 0"
    by (simp add: match_in_devices_def)
  have h1: "match_in_devices ''192.168.178.50'' ''aa:bb:cc:dd:ee:01'' ?devices = 1"
    by (simp add: match_in_devices_def)
  show ?thesis
    using h0 by (simp add: test_favourites_given for_body_code0[OF h0] for_body_code1[OF h1]
        verbose_print_def split: sum.splits)
qed

section \<open>Saving a favourite without a hardware address\<close>

lemma load_favourites_quiet: "load_favourites fmt key file 0 w =
    Inr (case load key file w of None \<Rightarrow> [] | Some favourites \<Rightarrow> favourites)"
  by (simp add: load_favourites_def split: option.splits)

lemma save_favourite_absent:
  assumes "match_ip_in_devices ip devices = None"
  shows "save_favourite net clock fmt name ip None lastonline key file (Some devices) verbose w =
           (case load_favourites fmt key file verbose w of
              Inl e \<Rightarrow> Inl e | Inr favourites \<Rightarrow> Inl TypeError, w)"
  using assms by (simp add: save_favourite_def split: sum.splits)

lemma save_favourite_silent:
  assumes "net (length (sent w)) ip = []"
  shows "save_favourite net clock fmt name ip None lastonline key file None verbose w =
           (case load_favourites fmt key file verbose w of
              Inl e \<Rightarrow> (Inl e, w)
            | Inr favourites \<Rightarrow> (Inl IndexError, w\<lparr>sent := sent w @ [ip]\<rparr>))"
  using assms by (simp add: save_favourite_def send_ARP_def split: sum.splits)

text \<open>
  C9: \<^verbatim>\<open>save_favourite\<close> with no hardware address given raises \<^verbatim>\<open>TypeError\<close> when the
  address is looked up in an empty list of devices, and \<^verbatim>\<open>IndexError\<close> when the request
  it sends is not answered. In both cases no value is returned and the file system is
  unchanged. With \<^verbatim>\<open>verbose\<close> not 0 the listing of the stored favourites comes first,
  and its exception, if it raises, is the one that leaves the function.
\<close>

theorem save_favourite_unresolved_raises:
  "save_favourite net clock fmt name ip None lastonline key file (Some []) 0 w = (Inl TypeError, w)
   \<and> save_favourite quiet_net clock fmt name ip None lastonline key file None 0 w =
       (Inl IndexError, w\<lparr>sent := sent w @ [ip]\<rparr>)
   \<and> save_favourite net clock fmt name ip None lastonline key file (Some []) verbose w =
       (case load_favourites fmt key file verbose w of
          Inl e \<Rightarrow> Inl e | Inr favourites \<Rightarrow> Inl TypeError, w)
   \<and> save_favourite quiet_net clock fmt name ip None lastonline key file None verbose w =
       (case load_favourites fmt key file verbose w of
          Inl e \<Rightarrow> (Inl e, w)
        | Inr favourites \<Rightarrow> (Inl IndexError, w\<lparr>sent := sent w @ [ip]\<rparr>))"
  by (simp add: save_favourite_absent save_favourite_silent quiet_net_def load_favourites_quiet)

section \<open>The store keeps the other keys\<close>

lemma load_all_save: "load_all file (save key v file w) = (load_all file w)(key \<mapsto> v)"
  by (simp add: load_all_def save_def split: option.splits)

lemma load_save_other: "k' \<noteq> key \<Longrightarrow> load k' file (save key v file w) = load k' file w"
  by (simp add: load_def save_def split: option.splits)

lemma load_save_same: "load key file (save key v file w) = Some v"
  by (simp add: load_def save_def split: option.splits)

lemma files_save_other: "file' \<noteq> file \<Longrightarrow> files (save key v file w) file' = files w file'"
  by (simp add: save_def)

lemma for_body_files: "files (snd (for_body net fmt devices now verbose fav acc w)) = files w"
  by (simp add: for_body_def send_ARP_def Let_def split: option.splits prod.splits sum.splits)

lemma for_favourites_files:
  "files (snd (for_favourites net fmt devices now verbose favourites acc w)) = files w"
proof (induction favourites arbitrary: acc w)
  case Nil
  then show ?case by simp
next
  case (Cons fav favourites)
  obtain r w' where b: "for_body net fmt devices now verbose fav acc w = (r, w')"
    by (cases "for_body net fmt devices now verbose fav acc w")
  with for_body_files[of net fmt devices now verbose fav acc w] have f: "files w' = files w" by simp
  show ?case
  proof (cases r)
    case (Inl e)
    with b f show ?thesis by simp
  next
    case (Inr acc')
    with b f Cons.IH[of acc' w'] show ?thesis by simp
  qed
qed

lemma test_favourites_other_keys:
  assumes "k' \<noteq> MAIN_LIST"
  shows "load k' DEFAULT_FILE (snd (test_favourites net clock fmt favourites devices now verbose w)) =
         load k' DEFAULT_FILE w"
proof -
  define now' where "now' = (case now of None \<Rightarrow> clock | Some t \<Rightarrow> t)"
  define lf where "lf = (case favourites of
      None \<Rightarrow> load_favourites fmt MAIN_LIST DEFAULT_FILE (if 1 < verbose then 1 else 0) w
    | Some fs \<Rightarrow> Inr fs)"
  define dw where "dw = (case devices of None \<Rightarrow> find_all_devices net HOME_RANGE w | Some ds \<Rightarrow> (ds, w))"
  have dwf: "files (snd dw) = files w"
    by (simp add: dw_def find_all_devices_def send_ARP_def split: option.splits)
  show ?thesis
  proof (cases lf)
    case (Inl e)
    then have "test_favourites net clock fmt favourites devices now verbose w = (Inl e, w)"
      by (simp add: test_favourites_def lf_def)
    then show ?thesis by simp
  next
    case (Inr favs)
    obtain r w' where l: "for_favourites net fmt (fst dw) now' verbose favs ([], []) (snd dw) = (r, w')"
      by (cases "for_favourites net fmt (fst dw) now' verbose favs ([], []) (snd dw)")
    with for_favourites_files[of net fmt "fst dw" now' verbose favs "([], [])" "snd dw"] dwf
    have f: "files w' = files w" by simp
    have t: "test_favourites net clock fmt favourites devices now verbose w =
          (case r of Inl e \<Rightarrow> (Inl e, w')
           | Inr acc \<Rightarrow> (Inr (fst acc), save MAIN_LIST (snd acc) DEFAULT_FILE w'))"
      using l Inr by (cases r) (simp_all add: test_favourites_def now'_def lf_def dw_def case_prod_beta Let_def)
    have lw: "load k' DEFAULT_FILE w' = load k' DEFAULT_FILE w"
      using f by (simp add: load_def)
    show ?thesis
      unfolding t using lw assms by (cases r) (simp_all add: load_save_other)
  qed
qed

text \<open>
  C10: \<^verbatim>\<open>save\<close> stores the value under its key in the dictionary that was in the file
  (the empty dictionary when there was no file) and writes that dictionary back: every
  other key of the file reads as before, and every other file is untouched. In
  particular a pass of \<^verbatim>\<open>test_favourites\<close>, whether it returns or raises, leaves every
  key of the default file other than the favourites key as it was.
\<close>

theorem save_merges:
  "load_all file (save key v file w) = (load_all file w)(key \<mapsto> v)
   \<and> (k' \<noteq> key \<longrightarrow> load k' file (save key v file w) = load k' file w)
   \<and> (file' \<noteq> file \<longrightarrow> files (save key v file w) file' = files w file')
   \<and> (k' \<noteq> MAIN_LIST \<longrightarrow>
        load k' DEFAULT_FILE (snd (test_favourites net clock fmt favourites devices now verbose fw)) =
        load k' DEFAULT_FILE fw)"
  by (simp add: load_all_save load_save_other files_save_other test_favourites_other_keys)

text \<open>The key \<^verbatim>\<open>settings\<close> of the example document survives a save and a pass.\<close>

theorem save_merges_witness:
  "''settings'' \<noteq> MAIN_LIST
   \<and> load ''settings'' DEFAULT_FILE (save MAIN_LIST [] DEFAULT_FILE two_names_world) = Some []
   \<and> load MAIN_LIST DEFAULT_FILE (save MAIN_LIST [] DEFAULT_FILE two_names_world) = Some []
   \<and> load ''settings'' DEFAULT_FILE
        (snd (test_favourites quiet_net 0 any_time None (Some []) (Some 2000) 1 two_names_world)) =
      Some []"
proof -
  have n: "''settings'' \<noteq> MAIN_LIST" by (simp add: MAIN_LIST_def)
  have l: "load ''settings'' DEFAULT_FILE two_names_world = Some []"
    using n by (simp add: load_def two_names_world_def)
  from save_merges[of DEFAULT_FILE MAIN_LIST "[]" two_names_world "''settings''" DEFAULT_FILE
      quiet_net 0 any_time None "Some []" "Some 2000" 1 two_names_world] n l
  show ?thesis by (simp add: load_save_same)
qed

section \<open>Deleting a favourite\<close>

lemma save_same_value:
  assumes "load key file w = Some v"
  shows "save key v file w = w"
proof -
  from assms obtain d where d: "files w file = Some d" "d key = Some v"
    by (auto simp: load_def split: option.splits)
  then have "d(key \<mapsto> v) = d" by (simp add: map_upd_triv)
  with d have "(files w)(file \<mapsto> d(key \<mapsto> v)) = files w" by (simp add: map_upd_triv)
  with d show ?thesis by (simp add: save_def)
qed

lemma count_named_filter: "count_named name (filter (\<lambda>f. fst f \<noteq> name) favourites) = 0"
  by (simp add: count_named_def)

lemma count_named_pos: "0 < count_named name favourites \<Longrightarrow> favourites \<noteq> []"
  by (auto simp: count_named_def)

lemma print_favourites_filter:
  "print_favourites fmt favourites = Inr () \<Longrightarrow> print_favourites fmt (filter P favourites) = Inr ()"
  by (induction favourites) (auto split: option.splits sum.splits if_splits)

lemma load_favourites_saved:
  assumes "load_favourites fmt key file verbose w = Inr favourites"
  shows "load_favourites fmt key file verbose (save key (filter P favourites) file w) =
           Inr (filter P favourites)"
proof (cases "verbose = 0")
  case True
  then show ?thesis by (simp add: load_favourites_def load_save_same)
next
  case False
  show ?thesis
  proof (cases "load key file w")
    case None
    with assms have "favourites = []" by (simp add: load_favourites_def)
    then show ?thesis by (simp add: load_favourites_def load_save_same)
  next
    case (Some l)
    with assms False have "l = favourites" "print_favourites fmt favourites = Inr ()"
      by (auto simp: load_favourites_def split: sum.splits)
    then show ?thesis
      using print_favourites_filter[of fmt favourites P]
      by (simp add: load_favourites_def load_save_same)
  qed
qed

text \<open>
  C8, as the code has it: when \<^verbatim>\<open>load_favourites\<close> returns the stored list (with
  \<^verbatim>\<open>verbose\<close> not 0 its listing must not raise: every record has a timestamp that
  \<^verbatim>\<open>parse_unix\<close> formats, and an address of two or more characters) and the list holds at
  least one record named \<open>name\<close>, \<^verbatim>\<open>delete_favourite\<close> returns \<^verbatim>\<open>True\<close> and saves the list
  without the records of that name, so none is left. A second call changes nothing in
  the world. It returns \<^verbatim>\<open>False\<close> exactly when the first call left the list empty: the
  value returned says whether the list was non-empty before the call, not whether a
  record was removed.
\<close>

theorem delete_favourite_twice:
  assumes "load_favourites fmt key file verbose w = Inr favourites"
    and "0 < count_named name favourites"
  shows "\<exists>w1.
     delete_favourite fmt name key file verbose w = (Inr True, w1)
     \<and> load key file w1 = Some (filter (\<lambda>f. fst f \<noteq> name) favourites)
     \<and> load_favourites fmt key file verbose w1 = Inr (filter (\<lambda>f. fst f \<noteq> name) favourites)
     \<and> count_named name (filter (\<lambda>f. fst f \<noteq> name) favourites) = 0
     \<and> delete_favourite fmt name key file verbose w1 =
         (Inr (filter (\<lambda>f. fst f \<noteq> name) favourites \<noteq> []), w1)"
proof -
  let ?rest = "filter (\<lambda>f. fst f \<noteq> name) favourites"
  let ?w1 = "save key ?rest file w"
  from count_named_pos[OF assms(2)] assms(1)
  have d1: "delete_favourite fmt name key file verbose w = (Inr True, ?w1)"
    by (simp add: delete_favourite_def)
  have l1: "load key file ?w1 = Some ?rest" by (rule load_save_same)
  have lf: "load_favourites fmt key file verbose ?w1 = Inr ?rest"
    using assms(1) by (rule load_favourites_saved)
  have s: "save key ?rest file ?w1 = ?w1" using l1 by (rule save_same_value)
  have d2: "delete_favourite fmt name key file verbose ?w1 = (Inr (?rest \<noteq> []), ?w1)"
    using s by (simp add: delete_favourite_def lf)
  from d1 l1 lf d2 show ?thesis by (simp add: count_named_filter)
qed

lemma two_names_loaded:
  "load_favourites any_time MAIN_LIST DEFAULT_FILE 1 two_names_world =
     Inr [(''tv'', (''192.168.178.30'', ''aa:bb:cc:dd:ee:03''), Some 700),
          (''nas'', (''192.168.178.40'', ''aa:bb:cc:dd:ee:04''), Some 800)]"
  by (simp add: load_favourites_def load_def two_names_world_def MAIN_LIST_def parse_unix_def
      any_time_def)

text \<open>Deleting \<^verbatim>\<open>tv\<close> from the example document, at the default verbosity, leaves \<^verbatim>\<open>nas\<close>.\<close>

theorem delete_favourite_twice_witness:
  "load_favourites any_time MAIN_LIST DEFAULT_FILE 1 two_names_world =
     Inr [(''tv'', (''192.168.178.30'', ''aa:bb:cc:dd:ee:03''), Some 700),
          (''nas'', (''192.168.178.40'', ''aa:bb:cc:dd:ee:04''), Some 800)]
   \<and> 0 < count_named ''tv''
           [(''tv'', (''192.168.178.30'', ''aa:bb:cc:dd:ee:03''), Some 700),
            (''nas'', (''192.168.178.40'', ''aa:bb:cc:dd:ee:04''), Some 800)]
   \<and> fst (delete_favourite any_time ''tv'' MAIN_LIST DEFAULT_FILE 1 two_names_world) = Inr True
   \<and> load MAIN_LIST DEFAULT_FILE
        (snd (delete_favourite any_time ''tv'' MAIN_LIST DEFAULT_FILE 1 two_names_world)) =
       Some [(''nas'', (''192.168.178.40'', ''aa:bb:cc:dd:ee:04''), Some 800)]"
proof -
  have h: "0 < count_named ''tv''
           [(''tv'', (''192.168.178.30'', ''aa:bb:cc:dd:ee:03''), Some 700),
            (''nas'', (''192.168.178.40'', ''aa:bb:cc:dd:ee:04''), Some 800)]"
    by (simp add: count_named_def)
  from delete_favourite_twice[OF two_names_loaded h] obtain w1 where
    "delete_favourite any_time ''tv'' MAIN_LIST DEFAULT_FILE 1 two_names_world = (Inr True, w1)"
    "load MAIN_LIST DEFAULT_FILE w1 = Some [(''nas'', (''192.168.178.40'', ''aa:bb:cc:dd:ee:04''), Some 800)]"
    by auto
  with two_names_loaded h show ?thesis by simp
qed

text \<open>
  The second deletion of \<^verbatim>\<open>tv\<close> from the example document removes nothing and still
  returns \<^verbatim>\<open>True\<close>, since \<^verbatim>\<open>nas\<close> is left in the list.
\<close>

theorem delete_again_reports_removal:
  "count_named ''tv''
     [(''tv'', (''192.168.178.30'', ''aa:bb:cc:dd:ee:03''), Some 700),
      (''nas'', (''192.168.178.40'', ''aa:bb:cc:dd:ee:04''), Some 800)] = 1
   \<and> load_favourites any_time MAIN_LIST DEFAULT_FILE 1 two_names_world =
     Inr [(''tv'', (''192.168.178.30'', ''aa:bb:cc:dd:ee:03''), Some 700),
          (''nas'', (''192.168.178.40'', ''aa:bb:cc:dd:ee:04''), Some 800)]
   \<and> fst (delete_favourite any_time ''tv'' MAIN_LIST DEFAULT_FILE 1 two_names_world) = Inr True
   \<and> load_favourites any_time MAIN_LIST DEFAULT_FILE 1
        (snd (delete_favourite any_time ''tv'' MAIN_LIST DEFAULT_FILE 1 two_names_world)) =
       Inr [(''nas'', (''192.168.178.40'', ''aa:bb:cc:dd:ee:04''), Some 800)]
   \<and> fst (delete_favourite any_time ''tv'' MAIN_LIST DEFAULT_FILE 1
        (snd (delete_favourite any_time ''tv'' MAIN_LIST DEFAULT_FILE 1 two_names_world))) = Inr True"
proof -
  have d1: "delete_favourite any_time ''tv'' MAIN_LIST DEFAULT_FILE 1 two_names_world =
      (Inr True, save MAIN_LIST [(''nas'', (''192.168.178.40'', ''aa:bb:cc:dd:ee:04''), Some 800)]
               DEFAULT_FILE two_names_world)"
    by (simp add: delete_favourite_def two_names_loaded)
  have l1: "load_favourites any_time MAIN_LIST DEFAULT_FILE 1
      (save MAIN_LIST [(''nas'', (''192.168.178.40'', ''aa:bb:cc:dd:ee:04''), Some 800)]
               DEFAULT_FILE two_names_world) =
      Inr [(''nas'', (''192.168.178.40'', ''aa:bb:cc:dd:ee:04''), Some 800)]"
    by (simp add: load_favourites_def load_save_same parse_unix_def any_time_def)
  show ?thesis
    unfolding d1 by (simp add: two_names_loaded l1 count_named_def delete_favourite_def)
qed

section \<open>Two passes in succession\<close>

lemma verbose_print_ok:
  "(verbose \<noteq> 0 \<Longrightarrow> \<not> isl (fmt t)) \<Longrightarrow> verbose_print fmt verbose t = Inr ()"
  by (cases "fmt t") (auto simp: verbose_print_def parse_unix_def)

lemma found_refreshed: "found net devices (refreshed now f) = found net devices f"
  by (simp add: found_def refreshed_def)

lemma for_body_clean:
  assumes stable: "\<And>n m ip. (net n ip = []) = (net m ip = [])"
    and code: "match_in_devices (fst (fst (snd f))) (snd (fst (snd f))) devices \<in> {0, 4}"
    and pr: "verbose \<noteq> 0 \<Longrightarrow> \<not> isl (fmt (case snd (snd f) of Some t \<Rightarrow> t | None \<Rightarrow> 0))"
  shows "\<exists>w'. files w' = files w \<and>
     for_body net fmt devices now verbose f acc w =
       (Inr (if found net devices f
             then (fst acc @ [f], snd acc @ [refreshed now f])
             else (fst acc, snd acc @ [f])), w')"
proof -
  obtain name ip mac lo where f: "f = (name, (ip, mac), lo)" by (cases f) auto
  from pr f have vp: "verbose_print fmt verbose (case lo of Some t \<Rightarrow> t | None \<Rightarrow> 0) = Inr ()"
    using verbose_print_ok[of verbose fmt "case lo of Some t \<Rightarrow> t | None \<Rightarrow> 0"] by simp
  from code f have "match_in_devices ip mac devices = 0 \<or> match_in_devices ip mac devices = 4"
    by simp
  then show ?thesis
  proof
    assume c: "match_in_devices ip mac devices = 0"
    have s: "(net (length (sent w)) ip = []) = (net 0 ip = [])" by (rule stable)
    have "files (w\<lparr>sent := sent w @ [ip]\<rparr>) = files w" by simp
    then show ?thesis
      unfolding f using for_body_code0[OF c, of net fmt now verbose name lo acc w] c s vp
      by (auto simp: found_def refreshed_def)
  next
    assume c: "match_in_devices ip mac devices = 4"
    show ?thesis
      unfolding f using for_body_code4[OF c, of net fmt now verbose name lo acc w] c vp
      by (auto simp: found_def refreshed_def)
  qed
qed

lemma for_favourites_clean:
  assumes stable: "\<And>n m ip. (net n ip = []) = (net m ip = [])"
  shows "\<forall>f\<in>set favs. match_in_devices (fst (fst (snd f))) (snd (fst (snd f))) devices \<in> {0, 4} \<Longrightarrow>
    (verbose \<noteq> 0 \<Longrightarrow>
       \<forall>f\<in>set favs. \<not> isl (fmt (case snd (snd f) of Some t \<Rightarrow> t | None \<Rightarrow> 0))) \<Longrightarrow>
    \<exists>w'. files w' = files w \<and>
      for_favourites net fmt devices now verbose favs acc w =
        (Inr (fst acc @ filter (found net devices) favs,
              snd acc @ map (\<lambda>f. if found net devices f then refreshed now f else f) favs), w')"
proof (induction favs arbitrary: acc w)
  case Nil
  then show ?case by simp
next
  case (Cons f favs)
  from Cons.prems(1) have c1: "match_in_devices (fst (fst (snd f))) (snd (fst (snd f))) devices \<in> {0, 4}"
    and cr: "\<forall>f\<in>set favs. match_in_devices (fst (fst (snd f))) (snd (fst (snd f))) devices \<in> {0, 4}"
    by simp_all
  from Cons.prems(2) have p1: "verbose \<noteq> 0 \<Longrightarrow> \<not> isl (fmt (case snd (snd f) of Some t \<Rightarrow> t | None \<Rightarrow> 0))"
    and pr: "verbose \<noteq> 0 \<Longrightarrow> \<forall>f\<in>set favs. \<not> isl (fmt (case snd (snd f) of Some t \<Rightarrow> t | None \<Rightarrow> 0))"
    by simp_all
  from for_body_clean[where net=net and fmt=fmt and verbose=verbose and f=f and devices=devices
      and now=now and acc=acc and w=w, OF stable c1 p1]
  obtain v where v: "files v = files w"
    "for_body net fmt devices now verbose f acc w =
       (Inr (if found net devices f
             then (fst acc @ [f], snd acc @ [refreshed now f])
             else (fst acc, snd acc @ [f])), v)"
    by blast
  let ?acc' = "if found net devices f
             then (fst acc @ [f], snd acc @ [refreshed now f])
             else (fst acc, snd acc @ [f])"
  from Cons.IH[OF cr pr, where acc="?acc'" and w=v]
  obtain w' where w': "files w' = files v"
    "for_favourites net fmt devices now verbose favs ?acc' v =
        (Inr (fst ?acc' @ filter (found net devices) favs,
              snd ?acc' @ map (\<lambda>f. if found net devices f then refreshed now f else f) favs), w')"
    by blast
  have "for_favourites net fmt devices now verbose (f # favs) acc w =
        (Inr (fst acc @ filter (found net devices) (f # favs),
              snd acc @ map (\<lambda>f. if found net devices f then refreshed now f else f) (f # favs)), w')"
    using v w' by simp
  moreover have "files w' = files w" using v w' by simp
  ultimately show ?case by blast
qed

lemma print_favourites_ok:
  "\<forall>g\<in>set l. \<exists>t. snd (snd g) = Some t \<and> \<not> isl (fmt t) \<and> 2 \<le> length (fst (fst (snd g))) \<Longrightarrow>
   print_favourites fmt l = Inr ()"
proof (induction l)
  case Nil
  then show ?case by simp
next
  case (Cons g l)
  then obtain t where t: "snd (snd g) = Some t" "\<not> isl (fmt t)" "2 \<le> length (fst (fst (snd g)))"
    by auto
  from t(2) obtain s where "fmt t = Inr s" by (cases "fmt t") auto
  with t Cons show ?case by (simp add: parse_unix_def)
qed

lemma test_favourites_stored:
  assumes "load_favourites fmt MAIN_LIST DEFAULT_FILE (if 1 < verbose then 1 else 0) w = Inr favourites"
  shows "test_favourites net clock fmt None (Some devices) (Some now) verbose w =
     (case for_favourites net fmt devices now verbose favourites ([], []) w of
        (Inl e, w') \<Rightarrow> (Inl e, w')
      | (Inr acc, w') \<Rightarrow> (Inr (fst acc), save MAIN_LIST (snd acc) DEFAULT_FILE w'))"
  using assms by (simp add: test_favourites_def)

text \<open>
  C7, as the code has it. Let the network answer a request for an address the same way
  at every time, let every favourite have code 4 (exact) or 0 (not found), and let the
  prints not raise: with \<^verbatim>\<open>verbose\<close> not 0, \<^verbatim>\<open>parse_unix\<close> formats the time of the first
  pass and every favourite's timestamp (0 for a favourite without one), and with
  \<^verbatim>\<open>verbose\<close> above 1 every favourite has a timestamp and an address of two or more
  characters. Then the first pass returns the favourites that are found, in order, and
  saves the list in which each of them carries the time of the first pass and the others
  are unchanged. The second pass, over the saved list and the same devices, returns the
  same favourites in the same order, each with the timestamp the first pass saved, and
  saves the list in which each of them carries the time of the second pass.
\<close>

theorem second_pass_same_online:
  assumes stable: "\<And>n m ip. (net n ip = []) = (net m ip = [])"
    and codes: "\<forall>f\<in>set favourites.
                  match_in_devices (fst (fst (snd f))) (snd (fst (snd f))) devices \<in> {0, 4}"
    and prints: "verbose \<noteq> 0 \<Longrightarrow>
                  \<not> isl (fmt now1) \<and>
                  (\<forall>f\<in>set favourites. \<not> isl (fmt (case snd (snd f) of Some t \<Rightarrow> t | None \<Rightarrow> 0)))"
    and listing: "1 < verbose \<Longrightarrow>
                  \<forall>f\<in>set favourites. snd (snd f) \<noteq> None \<and> 2 \<le> length (fst (fst (snd f)))"
  shows "\<exists>w1 w2.
     test_favourites net clock fmt (Some favourites) (Some devices) (Some now1) verbose w =
       (Inr (filter (found net devices) favourites), w1) \<and>
     load MAIN_LIST DEFAULT_FILE w1 =
       Some (map (\<lambda>f. if found net devices f then refreshed now1 f else f) favourites) \<and>
     test_favourites net clock fmt None (Some devices) (Some now2) verbose w1 =
       (Inr (map (refreshed now1) (filter (found net devices) favourites)), w2) \<and>
     load MAIN_LIST DEFAULT_FILE w2 =
       Some (map (\<lambda>f. if found net devices f then refreshed now2 f else f) favourites)"
proof -
  let ?up1 = "\<lambda>f. if found net devices f then refreshed now1 f else f"
  let ?up2 = "\<lambda>f. if found net devices f then refreshed now2 f else f"
  let ?new1 = "map ?up1 favourites"
  from prints have pr1: "verbose \<noteq> 0 \<Longrightarrow>
      \<forall>f\<in>set favourites. \<not> isl (fmt (case snd (snd f) of Some t \<Rightarrow> t | None \<Rightarrow> 0))"
    by simp
  from for_favourites_clean[where net=net and favs=favourites and devices=devices and verbose=verbose
      and fmt=fmt and now=now1 and acc="([], [])" and w=w, OF stable codes pr1]
  obtain v1 where p1: "for_favourites net fmt devices now1 verbose favourites ([], []) w =
      (Inr (filter (found net devices) favourites, ?new1), v1)"
    by auto
  let ?w1 = "save MAIN_LIST ?new1 DEFAULT_FILE v1"
  have t1: "test_favourites net clock fmt (Some favourites) (Some devices) (Some now1) verbose w =
      (Inr (filter (found net devices) favourites), ?w1)"
    by (simp add: test_favourites_given p1)
  have l1: "load MAIN_LIST DEFAULT_FILE ?w1 = Some ?new1" by (rule load_save_same)
  have codes2: "\<forall>g\<in>set ?new1.
      match_in_devices (fst (fst (snd g))) (snd (fst (snd g))) devices \<in> {0, 4}"
    using codes by (auto simp: refreshed_def)
  have pr2: "verbose \<noteq> 0 \<Longrightarrow>
      \<forall>g\<in>set ?new1. \<not> isl (fmt (case snd (snd g) of Some t \<Rightarrow> t | None \<Rightarrow> 0))"
    using prints by (auto simp: refreshed_def)
  have lf: "load_favourites fmt MAIN_LIST DEFAULT_FILE (if 1 < verbose then 1 else 0) ?w1 = Inr ?new1"
  proof (cases "1 < verbose")
    case False
    then show ?thesis by (simp add: load_favourites_def l1)
  next
    case True
    then have nz: "verbose \<noteq> 0" by simp
    have "\<forall>g\<in>set ?new1. \<exists>t. snd (snd g) = Some t \<and> \<not> isl (fmt t) \<and> 2 \<le> length (fst (fst (snd g)))"
    proof
      fix g assume "g \<in> set ?new1"
      then have "g \<in> ?up1 ` set favourites" by (simp only: set_map)
      then obtain f where f: "f \<in> set favourites" "g = ?up1 f" by (rule imageE)
      from listing[OF True] f obtain t where t: "snd (snd f) = Some t" "2 \<le> length (fst (fst (snd f)))"
        by auto
      from prints[OF nz] f t have ft: "\<not> isl (fmt t)" "\<not> isl (fmt now1)" by auto
      show "\<exists>t. snd (snd g) = Some t \<and> \<not> isl (fmt t) \<and> 2 \<le> length (fst (fst (snd g)))"
        using f t ft by (auto simp: refreshed_def)
    qed
    then have "print_favourites fmt ?new1 = Inr ()" by (rule print_favourites_ok)
    with True show ?thesis by (simp add: load_favourites_def l1)
  qed
  from for_favourites_clean[where net=net and favs="?new1" and devices=devices and verbose=verbose
      and fmt=fmt and now=now2 and acc="([], [])" and w="?w1", OF stable codes2 pr2]
  obtain v2 where p2: "for_favourites net fmt devices now2 verbose ?new1 ([], []) ?w1 =
      (Inr (filter (found net devices) ?new1, map ?up2 ?new1), v2)"
    by auto
  have on2: "filter (found net devices) ?new1 = map (refreshed now1) (filter (found net devices) favourites)"
    by (induction favourites) (simp_all add: found_refreshed)
  have rr: "\<And>f. refreshed now2 (refreshed now1 f) = refreshed now2 f"
    by (simp add: refreshed_def)
  have new2: "map ?up2 ?new1 = map ?up2 favourites"
    by (induction favourites) (simp_all add: found_refreshed rr)
  let ?w2 = "save MAIN_LIST (map ?up2 favourites) DEFAULT_FILE v2"
  have t2: "test_favourites net clock fmt None (Some devices) (Some now2) verbose ?w1 =
      (Inr (map (refreshed now1) (filter (found net devices) favourites)), ?w2)"
    unfolding test_favourites_stored[OF lf] p2 on2 new2 by simp
  have l2: "load MAIN_LIST DEFAULT_FILE ?w2 = Some (map ?up2 favourites)" by (rule load_save_same)
  from t1 l1 t2 l2 show ?thesis by blast
qed

text \<open>An exact match and a favourite found by the second request, with every print on.\<close>

theorem second_pass_same_online_witness:
  "match_in_devices ''192.168.178.40'' ''aa:bb:cc:dd:ee:04'' [(''192.168.178.40'', ''aa:bb:cc:dd:ee:04'')] = 4
   \<and> match_in_devices ''192.168.178.30'' ''aa:bb:cc:dd:ee:03'' [(''192.168.178.40'', ''aa:bb:cc:dd:ee:04'')] = 0
   \<and> (\<exists>w1 w2.
        test_favourites answering_net 0 any_time
          (Some [(''nas'', (''192.168.178.40'', ''aa:bb:cc:dd:ee:04''), Some 800),
                 (''tv'', (''192.168.178.30'', ''aa:bb:cc:dd:ee:03''), Some 700)])
          (Some [(''192.168.178.40'', ''aa:bb:cc:dd:ee:04'')]) (Some 2000) 2 world0 =
          (Inr [(''nas'', (''192.168.178.40'', ''aa:bb:cc:dd:ee:04''), Some 800),
                (''tv'', (''192.168.178.30'', ''aa:bb:cc:dd:ee:03''), Some 700)], w1) \<and>
        load MAIN_LIST DEFAULT_FILE w1 =
          Some [(''nas'', (''192.168.178.40'', ''aa:bb:cc:dd:ee:04''), Some 2000),
                (''tv'', (''192.168.178.30'', ''aa:bb:cc:dd:ee:03''), Some 2000)] \<and>
        test_favourites answering_net 0 any_time None
          (Some [(''192.168.178.40'', ''aa:bb:cc:dd:ee:04'')]) (Some 3000) 2 w1 =
          (Inr [(''nas'', (''192.168.178.40'', ''aa:bb:cc:dd:ee:04''), Some 2000),
                (''tv'', (''192.168.178.30'', ''aa:bb:cc:dd:ee:03''), Some 2000)], w2) \<and>
        load MAIN_LIST DEFAULT_FILE w2 =
          Some [(''nas'', (''192.168.178.40'', ''aa:bb:cc:dd:ee:04''), Some 3000),
                (''tv'', (''192.168.178.30'', ''aa:bb:cc:dd:ee:03''), Some 3000)])"
proof -
  let ?devices = "[(''192.168.178.40'', ''aa:bb:cc:dd:ee:04'')]"
  let ?nas = "(''nas'', (''192.168.178.40'', ''aa:bb:cc:dd:ee:04''), Some (800::int))"
  let ?tv = "(''tv'', (''192.168.178.30'', ''aa:bb:cc:dd:ee:03''), Some (700::int))"
  let ?favs = "[?nas, ?tv]"
  have h4: "match_in_devices ''192.168.178.40'' ''aa:bb:cc:dd:ee:04'' ?devices = 4"
    by (simp add: match_in_devices_def)
  have h0: "match_in_devices ''192.168.178.30'' ''aa:bb:cc:dd:ee:03'' ?devices = 0"
    by (simp add: match_in_devices_def)
  have stable: "\<And>n m ip. (answering_net n ip = []) = (answering_net m ip = [])"
    by (simp add: answering_net_def)
  have codes: "\<forall>f\<in>set ?favs. match_in_devices (fst (fst (snd f))) (snd (fst (snd f))) ?devices \<in> {0, 4}"
    using h4 h0 by simp
  have prints: "(2::int) \<noteq> 0 \<Longrightarrow> \<not> isl (any_time 2000) \<and>
      (\<forall>f\<in>set ?favs. \<not> isl (any_time (case snd (snd f) of Some t \<Rightarrow> t | None \<Rightarrow> 0)))"
    by (simp add: any_time_def)
  have listing: "(1::int) < 2 \<Longrightarrow>
      \<forall>f\<in>set ?favs. snd (snd f) \<noteq> None \<and> 2 \<le> length (fst (fst (snd f)))"
    by simp
  have f1: "found answering_net ?devices ?nas" by (simp add: found_def h4)
  have f2: "found answering_net ?devices ?tv" by (simp add: found_def answering_net_def)
  from second_pass_same_online[where net=answering_net and favourites="?favs" and devices="?devices"
      and clock=0 and fmt=any_time and verbose=2 and ?now1.0=2000 and ?now2.0=3000 and w=world0,
      OF stable codes prints listing]
  have "\<exists>w1 w2.
        test_favourites answering_net 0 any_time (Some ?favs) (Some ?devices) (Some 2000) 2 world0 =
          (Inr ?favs, w1) \<and>
        load MAIN_LIST DEFAULT_FILE w1 =
          Some [(''nas'', (''192.168.178.40'', ''aa:bb:cc:dd:ee:04''), Some 2000),
                (''tv'', (''192.168.178.30'', ''aa:bb:cc:dd:ee:03''), Some 2000)] \<and>
        test_favourites answering_net 0 any_time None (Some ?devices) (Some 3000) 2 w1 =
          (Inr [(''nas'', (''192.168.178.40'', ''aa:bb:cc:dd:ee:04''), Some 2000),
                (''tv'', (''192.168.178.30'', ''aa:bb:cc:dd:ee:03''), Some 2000)], w2) \<and>
        load MAIN_LIST DEFAULT_FILE w2 =
          Some [(''nas'', (''192.168.178.40'', ''aa:bb:cc:dd:ee:04''), Some 3000),
                (''tv'', (''192.168.178.30'', ''aa:bb:cc:dd:ee:03''), Some 3000)]"
    by (simp add: f1 f2 refreshed_def)
  with h4 h0 show ?thesis by (simp only: simp_thms)
qed

text \<open>
  After a conflict the two reports differ: the first pass reports the phone, the second
  reports the phone and the record \<^verbatim>\<open>phone_CONFLICT_OLDIP_NEWMAC\<close> that the first pass
  saved, which is an exact match for the device holding the phone's old address.
\<close>

theorem second_pass_after_conflict_differs:
  "fst (test_favourites quiet_net 0 any_time
          (Some [(''phone'', (''192.168.178.20'', ''11:22:33:44:55:66''), Some 500)])
          (Some [(''192.168.178.20'', ''ff:ee:dd:cc:bb:aa''), (''192.168.178.77'', ''11:22:33:44:55:66'')])
          (Some 2000) 1 world0) =
     Inr [(''phone'', (''192.168.178.77'', ''11:22:33:44:55:66''), Some 500)]
   \<and> fst (test_favourites quiet_net 0 any_time None
          (Some [(''192.168.178.20'', ''ff:ee:dd:cc:bb:aa''), (''192.168.178.77'', ''11:22:33:44:55:66'')])
          (Some 3000) 1
          (snd (test_favourites quiet_net 0 any_time
             (Some [(''phone'', (''192.168.178.20'', ''11:22:33:44:55:66''), Some 500)])
             (Some [(''192.168.178.20'', ''ff:ee:dd:cc:bb:aa''), (''192.168.178.77'', ''11:22:33:44:55:66'')])
             (Some 2000) 1 world0))) =
     Inr [(''phone'', (''192.168.178.77'', ''11:22:33:44:55:66''), Some 2000),
          (''phone_CONFLICT_OLDIP_NEWMAC'', (''192.168.178.20'', ''ff:ee:dd:cc:bb:aa''), Some 2000)]"
proof -
  let ?devices = "[(''192.168.178.20'', ''ff:ee:dd:cc:bb:aa''), (''192.168.178.77'', ''11:22:33:44:55:66'')]"
  have h3: "match_in_devices ''192.168.178.20'' ''11:22:33:44:55:66'' ?devices = 3"
    by (simp add: match_in_devices_def)
  have m: "match_mac_in_devices ''11:22:33:44:55:66'' ?devices = Some (''192.168.178.77'', ''11:22:33:44:55:66'')"
    by simp
  have i: "match_ip_in_devices ''192.168.178.20'' ?devices = Some (''192.168.178.20'', ''ff:ee:dd:cc:bb:aa'')"
    by simp
  have ha: "match_in_devices ''192.168.178.77'' ''11:22:33:44:55:66'' ?devices = 4"
    by (simp add: match_in_devices_def)
  have hb: "match_in_devices ''192.168.178.20'' ''ff:ee:dd:cc:bb:aa'' ?devices = 4"
    by (simp add: match_in_devices_def)
  have vp: "\<And>t. verbose_print any_time 1 t = Inr ()"
    by (simp add: verbose_print_def parse_unix_def any_time_def)
  have t1: "test_favourites quiet_net 0 any_time
          (Some [(''phone'', (''192.168.178.20'', ''11:22:33:44:55:66''), Some 500)])
          (Some ?devices) (Some 2000) 1 world0 =
     (Inr [(''phone'', (''192.168.178.77'', ''11:22:33:44:55:66''), Some 500)],
      save MAIN_LIST
        [(''phone'', (''192.168.178.77'', ''11:22:33:44:55:66''), Some 2000),
         (''phone_CONFLICT_OLDIP_NEWMAC'', (''192.168.178.20'', ''ff:ee:dd:cc:bb:aa''), Some 2000)]
        DEFAULT_FILE world0)"
    by (simp add: test_favourites_given for_body_code3[OF h3 m i] vp)
  have lf: "load_favourites any_time MAIN_LIST DEFAULT_FILE (if (1::int) < 1 then 1 else 0)
      (save MAIN_LIST
        [(''phone'', (''192.168.178.77'', ''11:22:33:44:55:66''), Some 2000),
         (''phone_CONFLICT_OLDIP_NEWMAC'', (''192.168.178.20'', ''ff:ee:dd:cc:bb:aa''), Some 2000)]
        DEFAULT_FILE world0) =
      Inr [(''phone'', (''192.168.178.77'', ''11:22:33:44:55:66''), Some 2000),
         (''phone_CONFLICT_OLDIP_NEWMAC'', (''192.168.178.20'', ''ff:ee:dd:cc:bb:aa''), Some 2000)]"
    by (simp add: load_favourites_def load_save_same)
  show ?thesis
    unfolding t1
    by (simp add: test_favourites_stored[OF lf] for_body_code4[OF ha] for_body_code4[OF hb] vp)
qed

end
